theory Spec2Isabelle
  imports Main
begin

section \<open>JavaScript values\<close>

text \<open>
  The module (\<^verbatim>\<open>src/index.ts\<close>) handles two kinds of data: fields with a declared
  TypeScript type (brand, regional settings, currencies, languages) and values of type
  \<^verbatim>\<open>any\<close> (translation dictionaries, custom configuration). The typed fields are
  records below; the untyped values are elements of \<open>jsval\<close>.

  A string is a \<open>char list\<close> that holds the UTF-8 bytes of the text, as the source file
  does. For ASCII text the bytes are also the UTF-16 code units of the JavaScript string.
  Cutting and comparing at ASCII characters (\<^verbatim>\<open>split\<close> on \<^verbatim>\<open>"."\<close>, \<^verbatim>\<open>"; "\<close> or
  \<^verbatim>\<open>"="\<close>, \<^verbatim>\<open>startsWith\<close>) gives the same pieces on the bytes as on the code units.
  The \<^verbatim>\<open>length\<close> of a string and its characters by index count code units: the model
  computes them for ASCII strings only (see \<open>own_property\<close>).
\<close>

datatype error = TypeError | ReferenceError

datatype jsval =
    JUndefined
  | JNull
  | JBool bool
  | JNum int
  | JStr string
  | JArr "jsval list"
  | JObj "(string \<times> jsval) list"
  | JNative nat

text \<open>
  \<open>JObj\<close> lists the own properties of a plain object (the first entry for a name is
  the property). \<open>JNative\<close> stands for an object of the runtime that is not data, such
  as a method found on a built-in prototype. Numbers are integers here: the module does
  no arithmetic, and the only number a lookup can make is a length.
\<close>

text \<open>Truthiness, as used by \<^verbatim>\<open>||\<close> and \<^verbatim>\<open>? :\<close>.\<close>

fun truthy :: "jsval \<Rightarrow> bool" where
  "truthy JUndefined = False"
| "truthy JNull = False"
| "truthy (JBool b) = b"
| "truthy (JNum n) = (n \<noteq> 0)"
| "truthy (JStr s) = (s \<noteq> [])"
| "truthy (JArr xs) = True"
| "truthy (JObj kvs) = True"
| "truthy (JNative n) = True"

definition js_or :: "jsval \<Rightarrow> jsval \<Rightarrow> jsval" where
  "js_or a b = (if truthy a then a else b)"


subsection \<open>Property reads\<close>

text \<open>
  An array index is written in canonical decimal form: \<^verbatim>\<open>"0"\<close>, \<^verbatim>\<open>"17"\<close>, but
  not \<^verbatim>\<open>"017"\<close>.
\<close>

definition is_digit :: "char \<Rightarrow> bool" where
  "is_digit c = (c \<in> set ''0123456789'')"

definition digit_value :: "char \<Rightarrow> nat" where
  "digit_value c = of_char c - 48"

definition array_index :: "string \<Rightarrow> nat option" where
  "array_index p =
     (if p \<noteq> [] \<and> list_all is_digit p \<and> (hd p \<noteq> CHR ''0'' \<or> p = ''0'')
      then Some (foldl (\<lambda>n c. 10 * n + digit_value c) 0 p)
      else None)"

definition is_ascii :: "char \<Rightarrow> bool" where
  "is_ascii c = ((of_char c :: nat) < 128)"

text \<open>
  The own properties of a value that the model computes: the entries of an object, the
  elements and the \<^verbatim>\<open>length\<close> of an array, the characters and the \<^verbatim>\<open>length\<close> of an
  ASCII string. For a string with a character outside ASCII the bytes are not the code
  units, so its \<^verbatim>\<open>length\<close> and its characters are not computed here: these reads are
  answered by the runtime parameter below.
\<close>

fun own_property :: "jsval \<Rightarrow> string \<Rightarrow> jsval option" where
  "own_property (JObj kvs) p = map_of kvs p"
| "own_property (JArr xs) p =
     (if p = ''length'' then Some (JNum (int (length xs)))
      else case array_index p of
             Some i \<Rightarrow> if i < length xs then Some (xs ! i) else None
           | None \<Rightarrow> None)"
| "own_property (JStr s) p =
     (if \<not> list_all is_ascii s then None
      else if p = ''length'' then Some (JNum (int (length s)))
      else case array_index p of
             Some i \<Rightarrow> if i < length s then Some (JStr [s ! i]) else None
           | None \<Rightarrow> None)"
| "own_property v p = None"

text \<open>
  Every other read is answered by the JavaScript runtime, which is not part of the
  module; it is a parameter of the model, in two parts.

  \<^item> \<open>data_read rt v p\<close> is the value of property \<open>p\<close> of a data value \<open>v\<close> (an
    object, an array, a string, a number, a boolean) when the model does not compute it:
    a property inherited from a built-in prototype, or a code-unit property of a
    non-ASCII string. It is \<open>JUndefined\<close> when there is no such property. The
    properties that the standard prototypes of data values supply are methods and
    getters that return, so this read does not throw.
  \<^item> \<open>native_read rt n p\<close> is the read of property \<open>p\<close> of the runtime object
    \<open>JNative n\<close>. It may throw: the accessors \<^verbatim>\<open>caller\<close> and \<^verbatim>\<open>arguments\<close> of a
    built-in function throw a \<^verbatim>\<open>TypeError\<close>.

  The theorems about the lookup hold for every runtime, unless they state a hypothesis
  on it.
\<close>

record runtime =
  data_read :: "jsval \<Rightarrow> string \<Rightarrow> jsval"
  native_read :: "nat \<Rightarrow> string \<Rightarrow> error + jsval"

text \<open>A runtime that supplies no property at all.\<close>

definition no_inherited :: runtime where
  "no_inherited = \<lparr>data_read = (\<lambda>v p. JUndefined), native_read = (\<lambda>n p. Inr JUndefined)\<rparr>"


text \<open>The read of a property of a data value: an own property first.\<close>

definition prop_read :: "runtime \<Rightarrow> jsval \<Rightarrow> string \<Rightarrow> jsval" where
  "prop_read rt v p = (case own_property v p of Some x \<Rightarrow> x | None \<Rightarrow> data_read rt v p)"

text \<open>
  \<^verbatim>\<open>value[part]\<close>: reading a property of \<^verbatim>\<open>undefined\<close> or \<^verbatim>\<open>null\<close> throws, and so
  may the read of a property of a runtime object.
\<close>

definition get_prop :: "runtime \<Rightarrow> jsval \<Rightarrow> string \<Rightarrow> error + jsval" where
  "get_prop rt v p =
     (if v = JUndefined \<or> v = JNull then Inl TypeError
      else case v of
             JNative n \<Rightarrow> native_read rt n p
           | _ \<Rightarrow> Inr (prop_read rt v p))"

section \<open>String operations\<close>

text \<open>\<^verbatim>\<open>String.prototype.startsWith\<close>.\<close>

definition startsWith :: "string \<Rightarrow> string \<Rightarrow> bool" where
  "startsWith s p = (take (length p) s = p)"

text \<open>
  \<^verbatim>\<open>String.prototype.split\<close> with a string separator: the text is cut at each
  occurrence of the separator, scanning from the left; an empty separator cuts between
  all code units. \<open>split_from sep cur s\<close> scans \<open>s\<close> with \<open>cur\<close> the piece read so
  far.
\<close>

function split_from :: "string \<Rightarrow> string \<Rightarrow> string \<Rightarrow> string list" where
  "split_from sep cur [] = [cur]"
| "split_from sep cur (c # cs) =
     (if sep \<noteq> [] \<and> startsWith (c # cs) sep
      then cur # split_from sep [] (drop (length sep) (c # cs))
      else split_from sep (cur @ [c]) cs)"
  by pat_completeness auto
termination
  by (relation "measure (\<lambda>(sep, cur, s). length s)") auto

definition split :: "string \<Rightarrow> string \<Rightarrow> string list" where
  "split s sep = (if sep = [] then map (\<lambda>c. [c]) s else split_from sep [] s)"

text \<open>\<^verbatim>\<open>xs[i]\<close> on an array of strings: \<^verbatim>\<open>undefined\<close> out of range.\<close>

definition at_index :: "string list \<Rightarrow> nat \<Rightarrow> jsval" where
  "at_index xs i = (if i < length xs then JStr (xs ! i) else JUndefined)"

section \<open>Data model\<close>

text \<open>
  A field of type \<^verbatim>\<open>string | undefined\<close> is a \<open>string option\<close>; the logo reference
  has type \<^verbatim>\<open>string | null | undefined\<close>.
\<close>

datatype logo_value = LogoUndefined | LogoNull | LogoUrl string

record BrandConfig =
  name :: "string option"
  tagline :: "string option"
  logoUrl :: logo_value
  primaryColor :: "string option"
  secondaryColor :: "string option"
  tertiaryColor :: "string option"

record Currency =
  code :: string
  flag :: string
  name :: string
  symbol :: string

record Language =
  code :: string
  flag :: string
  name :: string

record PricingEntry =
  price :: string
  symbol :: string

record RegionalOptions =
  defaultCurrency :: "string option"
  defaultLocale :: "string option"

record RegionalConfig =
  defaultCurrency :: string
  defaultLocale :: string

record BrandModuleOptions =
  brand :: "BrandConfig option"
  regional :: "RegionalOptions option"
  currencies :: "Currency list option"
  languages :: "Language list option"
  marketingLanguages :: "Language list option"
  pricingMap :: "(string \<times> PricingEntry) list option"
  translations' :: "(string \<times> jsval) list option"
  customConfig :: "(string \<times> jsval) list option"

text \<open>The variables of \<^verbatim>\<open>process.env\<close> that the module reads.\<close>

record ProcessEnv =
  NEXT_PUBLIC_APP_NAME :: "string option"
  NEXT_PUBLIC_APP_TAGLINE :: "string option"
  NEXT_PUBLIC_APP_LOGO_URL :: "string option"
  NEXT_PUBLIC_PRIMARY_COLOR :: "string option"
  NEXT_PUBLIC_SECONDARY_COLOR :: "string option"
  NEXT_PUBLIC_TERTIARY_COLOR :: "string option"
  NEXT_PUBLIC_DEFAULT_CURRENCY :: "string option"
  NEXT_PUBLIC_DEFAULT_LOCALE :: "string option"

record I18n =
  enabled :: bool
  supportedLocales :: "string list"

text \<open>
  The aggregate \<^verbatim>\<open>CONFIG\<close> is an object whose keys are strings and whose values have
  the type of the built-in field or, for a custom entry, any value.
\<close>

datatype config_value =
    VBrand BrandConfig
  | VRegional RegionalConfig
  | VCurrencies "Currency list"
  | VLanguages "Language list"
  | VPricing "(string \<times> PricingEntry) list"
  | VI18n I18n
  | VCustom jsval

subsection \<open>Default configurations\<close>

definition DEFAULT_BRAND :: BrandConfig where
  "DEFAULT_BRAND = \<lparr>
     BrandConfig.name = Some ''MyApp'',
     tagline = Some ''Your Application'',
     logoUrl = LogoNull,
     primaryColor = Some ''#4f46e5'',
     secondaryColor = Some ''#10b981'',
     tertiaryColor = Some ''#f59e0b''\<rparr>"

text \<open>
  A flag glyph is two regional indicator symbols (U+1F1E6 to U+1F1FF); in UTF-8 each
  is the bytes F0 9F 87 followed by one byte that tells the letter.
\<close>

definition regional_flag :: "nat \<Rightarrow> nat \<Rightarrow> string" where
  "regional_flag a b =
     [CHR 0xF0, CHR 0x9F, CHR 0x87, char_of a, CHR 0xF0, CHR 0x9F, CHR 0x87, char_of b]"

definition DEFAULT_CURRENCIES :: "Currency list" where
  "DEFAULT_CURRENCIES = [
     \<lparr>Currency.code = ''USD'', flag = regional_flag 0xBA 0xB8, name = ''US Dollar'',
      symbol = ''$''\<rparr>,
     \<lparr>Currency.code = ''EUR'', flag = regional_flag 0xAA 0xBA, name = ''Euro'',
      symbol = [CHR 0xE2, CHR 0x82, CHR 0xAC]\<rparr>,
     \<lparr>Currency.code = ''GBP'', flag = regional_flag 0xAC 0xA7, name = ''British Pound'',
      symbol = [CHR 0xC2, CHR 0xA3]\<rparr>,
     \<lparr>Currency.code = ''JPY'', flag = regional_flag 0xAF 0xB5, name = ''Japanese Yen'',
      symbol = [CHR 0xC2, CHR 0xA5]\<rparr>,
     \<lparr>Currency.code = ''INR'', flag = regional_flag 0xAE 0xB3, name = ''Indian Rupee'',
      symbol = [CHR 0xE2, CHR 0x82, CHR 0xB9]\<rparr>,
     \<lparr>Currency.code = ''SGD'', flag = regional_flag 0xB8 0xAC, name = ''Singapore Dollar'',
      symbol = ''$''\<rparr>,
     \<lparr>Currency.code = ''AUD'', flag = regional_flag 0xA6 0xBA, name = ''Australian Dollar'',
      symbol = ''$''\<rparr>,
     \<lparr>Currency.code = ''CAD'', flag = regional_flag 0xA8 0xA6, name = ''Canadian Dollar'',
      symbol = ''$''\<rparr>,
     \<lparr>Currency.code = ''SEK'', flag = regional_flag 0xB8 0xAA, name = ''Swedish Krona'',
      symbol = ''kr''\<rparr>]"

definition DEFAULT_LANGUAGES :: "Language list" where
  "DEFAULT_LANGUAGES = [
     \<lparr>Language.code = ''en-US'', flag = regional_flag 0xBA 0xB8, name = ''English (US)''\<rparr>,
     \<lparr>Language.code = ''es-ES'', flag = regional_flag 0xAA 0xB8, name = ''Spanish''\<rparr>,
     \<lparr>Language.code = ''fr-FR'', flag = regional_flag 0xAB 0xB7, name = ''French''\<rparr>]"

section \<open>The configuration assembler\<close>

text \<open>
  \<^verbatim>\<open>createBrandConfig(options)\<close> destructures its argument with defaults: an omitted
  \<^verbatim>\<open>brand\<close> or \<^verbatim>\<open>regional\<close> is the empty object, an omitted sequence is the built-in
  one, an omitted mapping is empty.
\<close>

definition brand_of :: "BrandModuleOptions \<Rightarrow> BrandConfig" where
  "brand_of opts =
     (case brand opts of
        Some b \<Rightarrow> b
      | None \<Rightarrow> \<lparr>BrandConfig.name = None, tagline = None, logoUrl = LogoUndefined,
                 primaryColor = None, secondaryColor = None, tertiaryColor = None\<rparr>)"

definition regional_of :: "BrandModuleOptions \<Rightarrow> RegionalOptions" where
  "regional_of opts =
     (case regional opts of
        Some r \<Rightarrow> r
      | None \<Rightarrow> \<lparr>RegionalOptions.defaultCurrency = None, defaultLocale = None\<rparr>)"

definition currencies_of :: "BrandModuleOptions \<Rightarrow> Currency list" where
  "currencies_of opts = (case currencies opts of Some cs \<Rightarrow> cs | None \<Rightarrow> DEFAULT_CURRENCIES)"

definition languages_of :: "BrandModuleOptions \<Rightarrow> Language list" where
  "languages_of opts = (case languages opts of Some ls \<Rightarrow> ls | None \<Rightarrow> DEFAULT_LANGUAGES)"

definition marketingLanguages_of :: "BrandModuleOptions \<Rightarrow> Language list" where
  "marketingLanguages_of opts =
     (case marketingLanguages opts of Some ls \<Rightarrow> ls | None \<Rightarrow> DEFAULT_LANGUAGES)"

definition pricingMap_of :: "BrandModuleOptions \<Rightarrow> (string \<times> PricingEntry) list" where
  "pricingMap_of opts = (case pricingMap opts of Some m \<Rightarrow> m | None \<Rightarrow> [])"

definition translations_of :: "BrandModuleOptions \<Rightarrow> (string \<times> jsval) list" where
  "translations_of opts = (case translations' opts of Some m \<Rightarrow> m | None \<Rightarrow> [])"

definition customConfig_of :: "BrandModuleOptions \<Rightarrow> (string \<times> jsval) list" where
  "customConfig_of opts = (case customConfig opts of Some m \<Rightarrow> m | None \<Rightarrow> [])"

text \<open>
  \<^verbatim>\<open>a || b\<close> on operands of type \<^verbatim>\<open>string | undefined\<close>: the left operand when it is
  a non-empty string, the right operand otherwise. \<open>or_else\<close> is the same with a string
  on the right.
\<close>

definition or_str :: "string option \<Rightarrow> string option \<Rightarrow> string option" where
  "or_str a b = (case a of Some s \<Rightarrow> if s \<noteq> [] then a else b | None \<Rightarrow> b)"

definition or_else :: "string option \<Rightarrow> string \<Rightarrow> string" where
  "or_else a d = (case a of Some s \<Rightarrow> if s \<noteq> [] then s else d | None \<Rightarrow> d)"

definition brandConfig :: "BrandModuleOptions \<Rightarrow> ProcessEnv \<Rightarrow> BrandConfig" where
  "brandConfig opts env =
     (let brand = brand_of opts in
      \<lparr>BrandConfig.name =
         or_str (or_str (BrandConfig.name brand) (NEXT_PUBLIC_APP_NAME env))
           (BrandConfig.name DEFAULT_BRAND),
       tagline =
         or_str (or_str (tagline brand) (NEXT_PUBLIC_APP_TAGLINE env)) (tagline DEFAULT_BRAND),
       logoUrl =
         (if logoUrl brand \<noteq> LogoUndefined then logoUrl brand
          else case NEXT_PUBLIC_APP_LOGO_URL env of
                 Some u \<Rightarrow> if u \<noteq> [] then LogoUrl u else logoUrl DEFAULT_BRAND
               | None \<Rightarrow> logoUrl DEFAULT_BRAND),
       primaryColor =
         or_str (or_str (primaryColor brand) (NEXT_PUBLIC_PRIMARY_COLOR env))
           (primaryColor DEFAULT_BRAND),
       secondaryColor =
         or_str (or_str (secondaryColor brand) (NEXT_PUBLIC_SECONDARY_COLOR env))
           (secondaryColor DEFAULT_BRAND),
       tertiaryColor =
         or_str (or_str (tertiaryColor brand) (NEXT_PUBLIC_TERTIARY_COLOR env))
           (tertiaryColor DEFAULT_BRAND)\<rparr>)"

definition regionalConfig :: "BrandModuleOptions \<Rightarrow> ProcessEnv \<Rightarrow> RegionalConfig" where
  "regionalConfig opts env =
     (let regional = regional_of opts in
      \<lparr>RegionalConfig.defaultCurrency =
         or_else (or_str (RegionalOptions.defaultCurrency regional)
                    (NEXT_PUBLIC_DEFAULT_CURRENCY env)) ''USD'',
       defaultLocale =
         or_else (or_str (RegionalOptions.defaultLocale regional)
                    (NEXT_PUBLIC_DEFAULT_LOCALE env)) ''en-US''\<rparr>)"

text \<open>
  \<^verbatim>\<open>Array.from(new Set(xs))\<close>: a \<^verbatim>\<open>Set\<close> keeps its elements in insertion order, and
  adding an element that is already there changes nothing.
\<close>

definition set_add :: "'a list \<Rightarrow> 'a \<Rightarrow> 'a list" where
  "set_add s x = (if x \<in> set s then s else s @ [x])"

definition new_Set :: "'a list \<Rightarrow> 'a list" where
  "new_Set xs = foldl set_add [] xs"

definition supportedLocales :: "BrandModuleOptions \<Rightarrow> string list" where
  "supportedLocales opts =
     new_Set (map Language.code (languages_of opts)
              @ map Language.code (marketingLanguages_of opts))"

text \<open>
  The object literal \<^verbatim>\<open>CONFIG\<close>: the seven built-in keys, then the spread of
  \<^verbatim>\<open>customConfig\<close>, whose entries are written last.
\<close>

definition spread :: "(string \<times> jsval) list \<Rightarrow> (string \<rightharpoonup> config_value)" where
  "spread kvs k = map_option VCustom (map_of kvs k)"

definition CONFIG :: "BrandModuleOptions \<Rightarrow> ProcessEnv \<Rightarrow> (string \<rightharpoonup> config_value)" where
  "CONFIG opts env =
     [''brand'' \<mapsto> VBrand (brandConfig opts env),
      ''regional'' \<mapsto> VRegional (regionalConfig opts env),
      ''currencies'' \<mapsto> VCurrencies (currencies_of opts),
      ''languages'' \<mapsto> VLanguages (languages_of opts),
      ''marketingLanguages'' \<mapsto> VLanguages (marketingLanguages_of opts),
      ''PRICING_MAP'' \<mapsto> VPricing (pricingMap_of opts),
      ''i18n'' \<mapsto> VI18n \<lparr>enabled = True, I18n.supportedLocales = supportedLocales opts\<rparr>]
     ++ spread (customConfig_of opts)"

section \<open>Translation lookup\<close>

text \<open>
  The loop of \<^verbatim>\<open>getValue\<close> over the path segments: it returns \<^verbatim>\<open>undefined\<close> as soon
  as the current value is \<^verbatim>\<open>undefined\<close> or \<^verbatim>\<open>null\<close> with a segment still to read, and
  the current value when the segments are used up.
\<close>

fun getValue_loop :: "runtime \<Rightarrow> jsval \<Rightarrow> string list \<Rightarrow> error + jsval" where
  "getValue_loop inh value [] = Inr value"
| "getValue_loop inh value (part # keys) =
     (if value = JUndefined \<or> value = JNull then Inr JUndefined
      else case get_prop inh value part of
             Inl e \<Rightarrow> Inl e
           | Inr v \<Rightarrow> getValue_loop inh v keys)"

definition getValue :: "runtime \<Rightarrow> jsval \<Rightarrow> string \<Rightarrow> error + jsval" where
  "getValue inh d k = getValue_loop inh d (split k ''.'')"

text \<open>
  The two dictionaries that \<^verbatim>\<open>t\<close> selects. \<^verbatim>\<open>translations\<close> is an object, so reading
  its properties cannot throw.
\<close>

definition dict :: "runtime \<Rightarrow> (string \<times> jsval) list \<Rightarrow> string \<Rightarrow> jsval" where
  "dict inh translations locale =
     js_or (js_or (prop_read inh (JObj translations) locale)
                  (prop_read inh (JObj translations) ''en-US''))
           (JObj [])"

definition enDict :: "runtime \<Rightarrow> (string \<times> jsval) list \<Rightarrow> jsval" where
  "enDict inh translations = js_or (prop_read inh (JObj translations) ''en-US'') (JObj [])"

text \<open>
  \<^verbatim>\<open>t(key, locale)\<close>, closed over the options and the environment; an omitted locale
  argument is the resolved default locale.
\<close>

definition t ::
  "runtime \<Rightarrow> BrandModuleOptions \<Rightarrow> ProcessEnv \<Rightarrow> string \<Rightarrow> string option \<Rightarrow> error + jsval"
where
  "t inh opts env key locale_arg =
     (let translations = translations_of opts;
          locale = (case locale_arg of
                      Some l \<Rightarrow> l
                    | None \<Rightarrow> RegionalConfig.defaultLocale (regionalConfig opts env))
      in case getValue inh (dict inh translations locale) key of
           Inl e \<Rightarrow> Inl e
         | Inr value \<Rightarrow>
             if value \<noteq> JUndefined \<and> value \<noteq> JNull then Inr value
             else if locale \<noteq> ''en-US'' then
               (case getValue inh (enDict inh translations) key of
                  Inl e \<Rightarrow> Inl e
                | Inr enValue \<Rightarrow>
                    if enValue \<noteq> JUndefined \<and> enValue \<noteq> JNull then Inr enValue
                    else Inr (JStr key))
             else Inr (JStr key))"

section \<open>Locale cookie helpers\<close>

subsection \<open>The ambient cookie store\<close>

text \<open>
  Modelled from the spec: the ambient cookie store behind \<^verbatim>\<open>document.cookie\<close> is
  provided by the browser and is not part of the repository. The spec describes it as a
  store of named cookies with attributes, written by assigning a cookie string
  (\<^verbatim>\<open>name=value; attribute; ...\<close>) and read back as a header of \<^verbatim>\<open>name=value\<close>
  entries separated by \<^verbatim>\<open>"; "\<close>. The store holds the cookies visible to the document,
  in the order of the header; a write replaces the cookie of the same name or adds a new
  one at the end. Expiry is not modelled.
\<close>

record Cookie =
  cookie_name :: string
  cookie_value :: string
  attributes :: "string list"

type_synonym document = "Cookie list"

definition is_space :: "char \<Rightarrow> bool" where
  "is_space c = (c = CHR '' '' \<or> c = CHR 0x09)"

definition trim :: "string \<Rightarrow> string" where
  "trim s = rev (dropWhile is_space (rev (dropWhile is_space s)))"

text \<open>
  Modelled from the spec: the cookie string assigned to \<^verbatim>\<open>document.cookie\<close> (the
  browser's parser is missing). The text before the first \<^verbatim>\<open>;\<close> is the pair
  \<^verbatim>\<open>name=value\<close>, cut at its first \<^verbatim>\<open>=\<close>; the pieces after it are the
  attributes; surrounding blanks are dropped. A string without \<^verbatim>\<open>=\<close> or without a
  name writes nothing.
\<close>

definition parse_cookie_string :: "string \<Rightarrow> Cookie option" where
  "parse_cookie_string str =
     (case split str '';'' of
        [] \<Rightarrow> None
      | pair # attrs \<Rightarrow>
          if CHR ''='' \<notin> set pair then None
          else let n = trim (takeWhile (\<lambda>c. c \<noteq> CHR ''='') pair);
                   v = trim (tl (dropWhile (\<lambda>c. c \<noteq> CHR ''='') pair))
               in if n = [] then None
                  else Some \<lparr>cookie_name = n, cookie_value = v, attributes = map trim attrs\<rparr>)"

text \<open>
  Modelled from the spec: the write to the store (the browser's \<^verbatim>\<open>document.cookie\<close>
  setter is missing). The cookie takes the place of the cookie of the same name, or
  comes last.
\<close>

fun store_cookie :: "Cookie \<Rightarrow> document \<Rightarrow> document" where
  "store_cookie c [] = [c]"
| "store_cookie c (d # ds) =
     (if cookie_name d = cookie_name c then c # ds else d # store_cookie c ds)"

definition cookie_assign :: "document \<Rightarrow> string \<Rightarrow> document" where
  "cookie_assign doc str =
     (case parse_cookie_string str of None \<Rightarrow> doc | Some c \<Rightarrow> store_cookie c doc)"

text \<open>\<^verbatim>\<open>Array.prototype.join\<close> on an array of strings.\<close>

fun join :: "string \<Rightarrow> string list \<Rightarrow> string" where
  "join sep [] = []"
| "join sep [x] = x"
| "join sep (x # y # ys) = x @ sep @ join sep (y # ys)"

text \<open>
  Modelled from the spec: the header read from the store (the browser's
  \<^verbatim>\<open>document.cookie\<close> getter is missing): the entries \<^verbatim>\<open>name=value\<close> of the
  cookies, separated by \<^verbatim>\<open>"; "\<close>.
\<close>

definition cookie_entry :: "Cookie \<Rightarrow> string" where
  "cookie_entry c = cookie_name c @ ''='' @ cookie_value c"

definition cookie_read :: "document \<Rightarrow> string" where
  "cookie_read doc = join ''; '' (map cookie_entry doc)"

text \<open>
  The global \<^verbatim>\<open>document\<close> is absent outside a browser; evaluating it there throws a
  \<^verbatim>\<open>ReferenceError\<close>, while \<^verbatim>\<open>typeof document\<close> does not.
\<close>

definition the_document :: "document option \<Rightarrow> error + document" where
  "the_document ambient = (case ambient of None \<Rightarrow> Inl ReferenceError | Some d \<Rightarrow> Inr d)"

subsection \<open>The helpers\<close>

text \<open>
  \<^verbatim>\<open>setLocaleCookie\<close> returns nothing; its result here is the ambient store after the
  call.
\<close>

definition setLocaleCookie :: "document option \<Rightarrow> string \<Rightarrow> error + document option" where
  "setLocaleCookie ambient locale =
     (if ambient = None then Inr ambient
      else case the_document ambient of
             Inl e \<Rightarrow> Inl e
           | Inr d \<Rightarrow>
               Inr (Some (cookie_assign d
                 (''NEXT_LOCALE='' @ locale @ ''; path=/; max-age=31536000; SameSite=Lax''))))"

definition getLocaleCookie :: "document option \<Rightarrow> error + jsval" where
  "getLocaleCookie ambient =
     (if ambient = None then Inr JNull
      else case the_document ambient of
             Inl e \<Rightarrow> Inl e
           | Inr d \<Rightarrow>
               let cookies = split (cookie_read d) ''; '';
                   localeCookie = find (\<lambda>row. startsWith row ''NEXT_LOCALE='') cookies
               in Inr (case localeCookie of
                         Some row \<Rightarrow> if row \<noteq> [] then at_index (split row ''='') 1 else JNull
                       | None \<Rightarrow> JNull))"

section \<open>Notions of the specification\<close>

text \<open>
  The first entry of a list of sources that is present and non-empty.
\<close>

fun first_present :: "string option list \<Rightarrow> string option" where
  "first_present [] = None"
| "first_present (None # vs) = first_present vs"
| "first_present (Some s # vs) = (if s \<noteq> [] then Some s else first_present vs)"

text \<open>
  A list without its repetitions: each element stays where it first occurs.
\<close>

fun first_occurrences :: "'a list \<Rightarrow> 'a list" where
  "first_occurrences [] = []"
| "first_occurrences (x # xs) = x # removeAll x (first_occurrences xs)"







text \<open>
  A plain URL-safe token: a non-empty string of letters, digits and the marks
  \<^verbatim>\<open>- . _ ~\<close>.
\<close>

definition url_safe_char :: "char \<Rightarrow> bool" where
  "url_safe_char c =
     (c \<in> set ''ABCDEFGHIJKLMNOPQRSTUVWXYZabcdefghijklmnopqrstuvwxyz0123456789-._~'')"

definition url_safe_token :: "string \<Rightarrow> bool" where
  "url_safe_token s = (s \<noteq> [] \<and> list_all url_safe_char s)"

text \<open>
  A well-formed store: the name of a cookie is not empty and has no \<^verbatim>\<open>=\<close>, and
  neither name nor value has a \<^verbatim>\<open>;\<close>.
\<close>

definition cookie_ok :: "Cookie \<Rightarrow> bool" where
  "cookie_ok c =
     (cookie_name c \<noteq> [] \<and> CHR ''='' \<notin> set (cookie_name c)
      \<and> CHR '';'' \<notin> set (cookie_name c) \<and> CHR '';'' \<notin> set (cookie_value c))"

definition store_ok :: "document \<Rightarrow> bool" where
  "store_ok doc = list_all cookie_ok doc"

text \<open>
  The cookie that \<^verbatim>\<open>setLocaleCookie(locale)\<close> is specified to write: the name
  \<^verbatim>\<open>NEXT_LOCALE\<close>, the locale as value, and the attributes \<^verbatim>\<open>path=/\<close>,
  \<^verbatim>\<open>max-age=31536000\<close>, \<^verbatim>\<open>SameSite=Lax\<close>.
\<close>

definition locale_cookie :: "string \<Rightarrow> Cookie" where
  "locale_cookie locale = \<lparr>cookie_name = ''NEXT_LOCALE'', cookie_value = locale,
     attributes = [''path=/'', ''max-age=31536000'', ''SameSite=Lax'']\<rparr>"

section \<open>Example inputs\<close>

text \<open>The call \<^verbatim>\<open>createBrandConfig()\<close> with no option, in an empty environment.\<close>

definition no_options :: BrandModuleOptions where
  "no_options = \<lparr>brand = None, regional = None, currencies = None, languages = None,
     marketingLanguages = None, pricingMap = None, translations' = None,
     customConfig = None\<rparr>"

definition no_env :: ProcessEnv where
  "no_env = \<lparr>NEXT_PUBLIC_APP_NAME = None, NEXT_PUBLIC_APP_TAGLINE = None,
     NEXT_PUBLIC_APP_LOGO_URL = None, NEXT_PUBLIC_PRIMARY_COLOR = None,
     NEXT_PUBLIC_SECONDARY_COLOR = None, NEXT_PUBLIC_TERTIARY_COLOR = None,
     NEXT_PUBLIC_DEFAULT_CURRENCY = None, NEXT_PUBLIC_DEFAULT_LOCALE = None\<rparr>"

definition no_brand :: BrandConfig where
  "no_brand = \<lparr>BrandConfig.name = None, tagline = None, logoUrl = LogoUndefined,
     primaryColor = None, secondaryColor = None, tertiaryColor = None\<rparr>"

definition lang :: "string \<Rightarrow> Language" where
  "lang c = \<lparr>Language.code = c, flag = [], name = c\<rparr>"



text \<open>A store with one cookie, \<^verbatim>\<open>theme=dark\<close>.\<close>

definition theme_cookie :: Cookie where
  "theme_cookie = \<lparr>cookie_name = ''theme'', cookie_value = ''dark'', attributes = []\<rparr>"

lemmas example_defs =
  no_options_def no_env_def brand_of_def regional_of_def currencies_of_def
  languages_of_def marketingLanguages_of_def pricingMap_of_def translations_of_def
  customConfig_of_def

lemmas eval_defs =
  example_defs getValue_def split_def startsWith_def dict_def enDict_def js_or_def
  prop_read_def get_prop_def no_inherited_def array_index_def is_digit_def is_ascii_def
  cookie_read_def cookie_entry_def

section \<open>Precedence of the configuration sources\<close>

lemma or_str_chain:
  "d \<noteq> [] \<Longrightarrow> or_str (or_str a b) (Some d) = first_present [a, b, Some d]"
  by (cases a; cases b) (auto simp: or_str_def)

lemma or_else_chain:
  "d \<noteq> [] \<Longrightarrow> Some (or_else (or_str a b) d) = first_present [a, b, Some d]"
  by (cases a; cases b) (auto simp: or_str_def or_else_def)

text \<open>
  The explicit value of a field of an optional part of the options: absent when the part
  or the field is omitted.
\<close>

lemma brand_of_field:
  "BrandConfig.name (brand_of opts) = Option.bind (brand opts) BrandConfig.name"
  "tagline (brand_of opts) = Option.bind (brand opts) tagline"
  "primaryColor (brand_of opts) = Option.bind (brand opts) primaryColor"
  "secondaryColor (brand_of opts) = Option.bind (brand opts) secondaryColor"
  "tertiaryColor (brand_of opts) = Option.bind (brand opts) tertiaryColor"
  by (simp_all add: brand_of_def split: option.split)

lemma regional_of_field:
  "RegionalOptions.defaultCurrency (regional_of opts)
     = Option.bind (regional opts) RegionalOptions.defaultCurrency"
  "RegionalOptions.defaultLocale (regional_of opts)
     = Option.bind (regional opts) RegionalOptions.defaultLocale"
  by (simp_all add: regional_of_def split: option.split)

lemma CONFIG_not_custom:
  "Option.bind (customConfig opts) (\<lambda>c. map_of c k) = None \<Longrightarrow>
   CONFIG opts env k =
     [''brand'' \<mapsto> VBrand (brandConfig opts env),
      ''regional'' \<mapsto> VRegional (regionalConfig opts env),
      ''currencies'' \<mapsto> VCurrencies (currencies_of opts),
      ''languages'' \<mapsto> VLanguages (languages_of opts),
      ''marketingLanguages'' \<mapsto> VLanguages (marketingLanguages_of opts),
      ''PRICING_MAP'' \<mapsto> VPricing (pricingMap_of opts),
      ''i18n'' \<mapsto> VI18n \<lparr>enabled = True, I18n.supportedLocales = supportedLocales opts\<rparr>] k"
  unfolding CONFIG_def map_add_def spread_def customConfig_of_def
  by (cases "customConfig opts") (simp_all only: option.map option.case Option.bind.simps map_of.simps)

text \<open>
  Claim C1, as stated: the resolved value of a brand or regional field in the aggregate
  configuration is the first present and non-empty one of option, environment variable
  and default. The aggregate is written with the custom entries last, so that a custom
  entry named \<^verbatim>\<open>brand\<close> takes the place of the resolved brand: with the options
  \<^verbatim>\<open>{brand: {name: "Acme"}, customConfig: {brand: "shadow"}}\<close> the aggregate's
  \<^verbatim>\<open>brand\<close> is the string \<^verbatim>\<open>"shadow"\<close>, while the resolved name is \<^verbatim>\<open>"Acme"\<close>.
\<close>

theorem brand_shadow_counterexample:
  "BrandConfig.name
     (brandConfig
        (no_options\<lparr>brand := Some (no_brand\<lparr>BrandConfig.name := Some ''Acme''\<rparr>),
                     customConfig := Some [(''brand'', JStr ''shadow'')]\<rparr>) no_env)
     = Some ''Acme''
   \<and> CONFIG (no_options\<lparr>brand := Some (no_brand\<lparr>BrandConfig.name := Some ''Acme''\<rparr>),
                          customConfig := Some [(''brand'', JStr ''shadow'')]\<rparr>) no_env ''brand''
     = Some (VCustom (JStr ''shadow''))"
  by (simp add: CONFIG_def spread_def map_add_def brandConfig_def or_str_def
        DEFAULT_BRAND_def example_defs no_brand_def)

text \<open>
  Claim C1, amended. Each brand string field (name, tagline, primary, secondary and
  tertiary colour) and each regional field (default currency, default locale) resolves to
  the first of explicit option value, environment variable, built-in default that is
  present and non-empty, in that order: a non-empty option wins over a set environment
  variable, and an empty or omitted option falls through to the environment variable and
  then to the default. The resolved brand is the \<^verbatim>\<open>brand\<close> of the aggregate when the
  custom configuration has no entry named \<^verbatim>\<open>brand\<close>, and the resolved regional
  settings are its \<^verbatim>\<open>regional\<close> when the custom configuration has no entry named
  \<^verbatim>\<open>regional\<close>.
\<close>

theorem brand_regional_precedence:
  "BrandConfig.name (brandConfig opts env) =
     first_present [Option.bind (brand opts) BrandConfig.name, NEXT_PUBLIC_APP_NAME env,
                    Some ''MyApp'']
   \<and> tagline (brandConfig opts env) =
     first_present [Option.bind (brand opts) tagline, NEXT_PUBLIC_APP_TAGLINE env,
                    Some ''Your Application'']
   \<and> primaryColor (brandConfig opts env) =
     first_present [Option.bind (brand opts) primaryColor, NEXT_PUBLIC_PRIMARY_COLOR env,
                    Some ''#4f46e5'']
   \<and> secondaryColor (brandConfig opts env) =
     first_present [Option.bind (brand opts) secondaryColor, NEXT_PUBLIC_SECONDARY_COLOR env,
                    Some ''#10b981'']
   \<and> tertiaryColor (brandConfig opts env) =
     first_present [Option.bind (brand opts) tertiaryColor, NEXT_PUBLIC_TERTIARY_COLOR env,
                    Some ''#f59e0b'']
   \<and> Some (RegionalConfig.defaultCurrency (regionalConfig opts env)) =
     first_present [Option.bind (regional opts) RegionalOptions.defaultCurrency,
                    NEXT_PUBLIC_DEFAULT_CURRENCY env, Some ''USD'']
   \<and> Some (RegionalConfig.defaultLocale (regionalConfig opts env)) =
     first_present [Option.bind (regional opts) RegionalOptions.defaultLocale,
                    NEXT_PUBLIC_DEFAULT_LOCALE env, Some ''en-US'']
   \<and> (Option.bind (customConfig opts) (\<lambda>c. map_of c ''brand'') = None \<longrightarrow>
        CONFIG opts env ''brand'' = Some (VBrand (brandConfig opts env)))
   \<and> (Option.bind (customConfig opts) (\<lambda>c. map_of c ''regional'') = None \<longrightarrow>
        CONFIG opts env ''regional'' = Some (VRegional (regionalConfig opts env)))"
proof -
  have fields:
    "BrandConfig.name (brandConfig opts env) =
       first_present [BrandConfig.name (brand_of opts), NEXT_PUBLIC_APP_NAME env, Some ''MyApp'']"
    "tagline (brandConfig opts env) =
       first_present [tagline (brand_of opts), NEXT_PUBLIC_APP_TAGLINE env,
                      Some ''Your Application'']"
    "primaryColor (brandConfig opts env) =
       first_present [primaryColor (brand_of opts), NEXT_PUBLIC_PRIMARY_COLOR env,
                      Some ''#4f46e5'']"
    "secondaryColor (brandConfig opts env) =
       first_present [secondaryColor (brand_of opts), NEXT_PUBLIC_SECONDARY_COLOR env,
                      Some ''#10b981'']"
    "tertiaryColor (brandConfig opts env) =
       first_present [tertiaryColor (brand_of opts), NEXT_PUBLIC_TERTIARY_COLOR env,
                      Some ''#f59e0b'']"
    "Some (RegionalConfig.defaultCurrency (regionalConfig opts env)) =
       first_present [RegionalOptions.defaultCurrency (regional_of opts),
                      NEXT_PUBLIC_DEFAULT_CURRENCY env, Some ''USD'']"
    "Some (RegionalConfig.defaultLocale (regionalConfig opts env)) =
       first_present [RegionalOptions.defaultLocale (regional_of opts),
                      NEXT_PUBLIC_DEFAULT_LOCALE env, Some ''en-US'']"
    by (simp_all add: brandConfig_def regionalConfig_def Let_def DEFAULT_BRAND_def
          or_str_chain or_else_chain)
  have b: "Option.bind (customConfig opts) (\<lambda>c. map_of c ''brand'') = None \<longrightarrow>
        CONFIG opts env ''brand'' = Some (VBrand (brandConfig opts env))"
    by (simp add: CONFIG_not_custom)
  have r: "Option.bind (customConfig opts) (\<lambda>c. map_of c ''regional'') = None \<longrightarrow>
        CONFIG opts env ''regional'' = Some (VRegional (regionalConfig opts env))"
    by (simp add: CONFIG_not_custom)
  from fields [unfolded brand_of_field regional_of_field] b r show ?thesis
    by (intro conjI)
qed

text \<open>
  The options \<^verbatim>\<open>{brand: {name: "Acme", tagline: ""}, regional: {defaultCurrency:
  "EUR", defaultLocale: ""}}\<close> with the variables for the name, the tagline, the currency
  and the locale set to \<^verbatim>\<open>"EnvCo"\<close>, \<^verbatim>\<open>"From env"\<close>, \<^verbatim>\<open>"GBP"\<close> and
  \<^verbatim>\<open>"fr-FR"\<close>: name and currency are the options, the empty tagline and locale fall
  through to the environment, the colours to the defaults, and the aggregate holds these
  values.
\<close>

theorem brand_regional_precedence_witness:
  "CONFIG
     (no_options\<lparr>
        brand := Some (no_brand\<lparr>BrandConfig.name := Some ''Acme'', tagline := Some ''''\<rparr>),
        regional := Some \<lparr>RegionalOptions.defaultCurrency = Some ''EUR'',
                           defaultLocale = Some ''''\<rparr>\<rparr>)
     (no_env\<lparr>NEXT_PUBLIC_APP_NAME := Some ''EnvCo'',
             NEXT_PUBLIC_APP_TAGLINE := Some ''From env'',
             NEXT_PUBLIC_DEFAULT_CURRENCY := Some ''GBP'',
             NEXT_PUBLIC_DEFAULT_LOCALE := Some ''fr-FR''\<rparr>) ''brand''
   = Some (VBrand \<lparr>BrandConfig.name = Some ''Acme'', tagline = Some ''From env'',
        logoUrl = LogoNull, primaryColor = Some ''#4f46e5'',
        secondaryColor = Some ''#10b981'', tertiaryColor = Some ''#f59e0b''\<rparr>)
   \<and> CONFIG
     (no_options\<lparr>
        brand := Some (no_brand\<lparr>BrandConfig.name := Some ''Acme'', tagline := Some ''''\<rparr>),
        regional := Some \<lparr>RegionalOptions.defaultCurrency = Some ''EUR'',
                           defaultLocale = Some ''''\<rparr>\<rparr>)
     (no_env\<lparr>NEXT_PUBLIC_APP_NAME := Some ''EnvCo'',
             NEXT_PUBLIC_APP_TAGLINE := Some ''From env'',
             NEXT_PUBLIC_DEFAULT_CURRENCY := Some ''GBP'',
             NEXT_PUBLIC_DEFAULT_LOCALE := Some ''fr-FR''\<rparr>) ''regional''
   = Some (VRegional \<lparr>RegionalConfig.defaultCurrency = ''EUR'', defaultLocale = ''fr-FR''\<rparr>)"
proof -
  let ?o = "no_options\<lparr>
        brand := Some (no_brand\<lparr>BrandConfig.name := Some ''Acme'', tagline := Some ''''\<rparr>),
        regional := Some \<lparr>RegionalOptions.defaultCurrency = Some ''EUR'',
                           defaultLocale = Some ''''\<rparr>\<rparr>"
  let ?e = "no_env\<lparr>NEXT_PUBLIC_APP_NAME := Some ''EnvCo'',
             NEXT_PUBLIC_APP_TAGLINE := Some ''From env'',
             NEXT_PUBLIC_DEFAULT_CURRENCY := Some ''GBP'',
             NEXT_PUBLIC_DEFAULT_LOCALE := Some ''fr-FR''\<rparr>"
  note p = brand_regional_precedence [of ?o ?e]
  have nb: "Option.bind (customConfig ?o) (\<lambda>c. map_of c ''brand'') = None"
    by (simp add: no_options_def)
  have nr: "Option.bind (customConfig ?o) (\<lambda>c. map_of c ''regional'') = None"
    by (simp add: no_options_def)
  have logo: "logoUrl (brandConfig ?o ?e) = LogoNull"
    by (simp add: brandConfig_def DEFAULT_BRAND_def example_defs no_brand_def)
  have n: "BrandConfig.name (brandConfig ?o ?e) = Some ''Acme''"
    using p [THEN conjunct1] by (simp add: no_options_def no_env_def no_brand_def)
  have t: "tagline (brandConfig ?o ?e) = Some ''From env''"
    using p [THEN conjunct2, THEN conjunct1]
    by (simp add: no_options_def no_env_def no_brand_def)
  have c1: "primaryColor (brandConfig ?o ?e) = Some ''#4f46e5''"
    using p [THEN conjunct2, THEN conjunct2, THEN conjunct1]
    by (simp add: no_options_def no_env_def no_brand_def)
  have c2: "secondaryColor (brandConfig ?o ?e) = Some ''#10b981''"
    using p [THEN conjunct2, THEN conjunct2, THEN conjunct2, THEN conjunct1]
    by (simp add: no_options_def no_env_def no_brand_def)
  have c3: "tertiaryColor (brandConfig ?o ?e) = Some ''#f59e0b''"
    using p [THEN conjunct2, THEN conjunct2, THEN conjunct2, THEN conjunct2, THEN conjunct1]
    by (simp add: no_options_def no_env_def no_brand_def)
  have cur: "RegionalConfig.defaultCurrency (regionalConfig ?o ?e) = ''EUR''"
    using p [THEN conjunct2, THEN conjunct2, THEN conjunct2, THEN conjunct2, THEN conjunct2,
             THEN conjunct1]
    by (simp add: no_options_def no_env_def)
  have loc: "RegionalConfig.defaultLocale (regionalConfig ?o ?e) = ''fr-FR''"
    using p [THEN conjunct2, THEN conjunct2, THEN conjunct2, THEN conjunct2, THEN conjunct2,
             THEN conjunct2, THEN conjunct1]
    by (simp add: no_options_def no_env_def)
  have bc: "brandConfig ?o ?e
      = \<lparr>BrandConfig.name = Some ''Acme'', tagline = Some ''From env'',
        logoUrl = LogoNull, primaryColor = Some ''#4f46e5'',
        secondaryColor = Some ''#10b981'', tertiaryColor = Some ''#f59e0b''\<rparr>"
    using n t logo c1 c2 c3 by (cases "brandConfig ?o ?e") simp
  have rc: "regionalConfig ?o ?e
      = \<lparr>RegionalConfig.defaultCurrency = ''EUR'', defaultLocale = ''fr-FR''\<rparr>"
    using cur loc by (cases "regionalConfig ?o ?e") simp
  from p [THEN conjunct2, THEN conjunct2, THEN conjunct2, THEN conjunct2, THEN conjunct2,
          THEN conjunct2, THEN conjunct2, THEN conjunct1] nb
  have "CONFIG ?o ?e ''brand'' = Some (VBrand (brandConfig ?o ?e))" by (rule mp)
  moreover
  from p [THEN conjunct2, THEN conjunct2, THEN conjunct2, THEN conjunct2, THEN conjunct2,
          THEN conjunct2, THEN conjunct2, THEN conjunct2] nr
  have "CONFIG ?o ?e ''regional'' = Some (VRegional (regionalConfig ?o ?e))" by (rule mp)
  ultimately show ?thesis by (simp only: bc rc simp_thms)
qed

text \<open>
  Claim C2. The logo reference is resolved by a strict presence check: when
  \<^verbatim>\<open>brand.logoUrl\<close> is explicitly \<^verbatim>\<open>null\<close> the resolved logo is \<^verbatim>\<open>null\<close>, whatever
  the logo environment variable holds; an explicit string is kept as it is; only an
  omitted \<^verbatim>\<open>brand.logoUrl\<close> falls through to the environment variable and then to the
  built-in default \<^verbatim>\<open>null\<close>.
\<close>

theorem logo_strict_presence:
  "(logoUrl (brand_of opts) = LogoNull \<longrightarrow> logoUrl (brandConfig opts env) = LogoNull)
   \<and> (logoUrl (brand_of opts) = LogoUrl u \<longrightarrow> logoUrl (brandConfig opts env) = LogoUrl u)
   \<and> (logoUrl (brand_of opts) = LogoUndefined \<longrightarrow>
        logoUrl (brandConfig opts env) =
          (case first_present [NEXT_PUBLIC_APP_LOGO_URL env] of
             Some e \<Rightarrow> LogoUrl e
           | None \<Rightarrow> LogoNull))"
  by (cases "NEXT_PUBLIC_APP_LOGO_URL env")
     (simp_all add: brandConfig_def Let_def DEFAULT_BRAND_def)

text \<open>
  With the logo variable set to \<^verbatim>\<open>"/env.png"\<close>: the option \<^verbatim>\<open>{logoUrl: null}\<close> gives
  \<^verbatim>\<open>null\<close>, the option \<^verbatim>\<open>{logoUrl: ""}\<close> gives the empty string, and no brand option
  gives the value of the variable.
\<close>

theorem logo_strict_presence_witness:
  "logoUrl (brand_of (no_options\<lparr>brand := Some (no_brand\<lparr>logoUrl := LogoNull\<rparr>)\<rparr>)) = LogoNull
   \<and> logoUrl (brandConfig (no_options\<lparr>brand := Some (no_brand\<lparr>logoUrl := LogoNull\<rparr>)\<rparr>)
                (no_env\<lparr>NEXT_PUBLIC_APP_LOGO_URL := Some ''/env.png''\<rparr>)) = LogoNull
   \<and> logoUrl (brand_of (no_options\<lparr>brand := Some (no_brand\<lparr>logoUrl := LogoUrl ''''\<rparr>)\<rparr>))
       = LogoUrl ''''
   \<and> logoUrl (brandConfig (no_options\<lparr>brand := Some (no_brand\<lparr>logoUrl := LogoUrl ''''\<rparr>)\<rparr>)
                (no_env\<lparr>NEXT_PUBLIC_APP_LOGO_URL := Some ''/env.png''\<rparr>)) = LogoUrl ''''
   \<and> logoUrl (brand_of no_options) = LogoUndefined
   \<and> logoUrl (brandConfig no_options (no_env\<lparr>NEXT_PUBLIC_APP_LOGO_URL := Some ''/env.png''\<rparr>))
       = LogoUrl ''/env.png''"
proof -
  let ?env = "no_env\<lparr>NEXT_PUBLIC_APP_LOGO_URL := Some ''/env.png''\<rparr>"
  let ?null = "no_options\<lparr>brand := Some (no_brand\<lparr>logoUrl := LogoNull\<rparr>)\<rparr>"
  let ?empty = "no_options\<lparr>brand := Some (no_brand\<lparr>logoUrl := LogoUrl ''''\<rparr>)\<rparr>"
  have a: "logoUrl (brand_of ?null) = LogoNull"
    by (simp add: example_defs no_brand_def)
  have b: "logoUrl (brand_of ?empty) = LogoUrl ''''"
    by (simp add: example_defs no_brand_def)
  have c: "logoUrl (brand_of no_options) = LogoUndefined"
    by (simp add: example_defs)
  have e: "first_present [NEXT_PUBLIC_APP_LOGO_URL ?env] = Some ''/env.png''"
    by (simp add: example_defs)
  from logo_strict_presence [of ?null ?env] a
  have a': "logoUrl (brandConfig ?null ?env) = LogoNull" by blast
  from logo_strict_presence [of ?empty ?env "''''"] b
  have b': "logoUrl (brandConfig ?empty ?env) = LogoUrl ''''" by blast
  from logo_strict_presence [of no_options ?env] c
  have "logoUrl (brandConfig no_options ?env) =
          (case first_present [NEXT_PUBLIC_APP_LOGO_URL ?env] of
             Some e \<Rightarrow> LogoUrl e
           | None \<Rightarrow> LogoNull)" by blast
  then have c': "logoUrl (brandConfig no_options ?env) = LogoUrl ''/env.png''"
    by (simp only: e option.case)
  from a a' b b' c c' show ?thesis by blast
qed

section \<open>Supported locales\<close>

lemma foldl_set_add:
  "foldl set_add acc xs = acc @ filter (\<lambda>x. x \<notin> set acc) (first_occurrences xs)"
proof (induction xs arbitrary: acc)
  case Nil
  then show ?case by simp
next
  case (Cons x xs)
  show ?case
  proof (cases "x \<in> set acc")
    case True
    then have "filter (\<lambda>y. y \<notin> set acc) (removeAll x (first_occurrences xs))
               = filter (\<lambda>y. y \<notin> set acc) (first_occurrences xs)"
      by (auto simp: removeAll_filter_not_eq intro: filter_cong)
    with True Cons.IH [of acc] show ?thesis by (simp add: set_add_def)
  next
    case False
    have "filter (\<lambda>y. y \<notin> set (acc @ [x])) (first_occurrences xs)
          = filter (\<lambda>y. y \<notin> set acc) (removeAll x (first_occurrences xs))"
      by (auto simp: removeAll_filter_not_eq intro: filter_cong)
    with False Cons.IH [of "acc @ [x]"] show ?thesis by (simp add: set_add_def)
  qed
qed

lemma new_Set_first_occurrences: "new_Set xs = first_occurrences xs"
  by (simp add: new_Set_def foldl_set_add)

lemma set_first_occurrences: "set (first_occurrences xs) = set xs"
  by (induction xs) auto

lemma distinct_first_occurrences: "distinct (first_occurrences xs)"
  by (induction xs) (auto simp: distinct_removeAll)

lemma new_Set_append:
  "new_Set (xs @ ys)
   = first_occurrences xs @ filter (\<lambda>c. c \<notin> set xs) (first_occurrences ys)"
proof -
  have "new_Set (xs @ ys) = foldl set_add (foldl set_add [] xs) ys"
    by (simp add: new_Set_def)
  also have "\<dots> = first_occurrences xs @ filter (\<lambda>c. c \<notin> set xs) (first_occurrences ys)"
    by (simp add: foldl_set_add set_first_occurrences)
  finally show ?thesis .
qed

text \<open>
  Claim C5, as stated: the \<^verbatim>\<open>supportedLocales\<close> list in the aggregate's \<^verbatim>\<open>i18n\<close>
  block is the deduplicated union of the language codes. The aggregate is written with
  the custom entries last, so that a custom entry named \<^verbatim>\<open>i18n\<close> takes the place of the
  block: with dashboard languages \<^verbatim>\<open>["de-DE"]\<close> and the custom configuration
  \<^verbatim>\<open>{i18n: false}\<close> the computed list is \<^verbatim>\<open>["de-DE", "en-US", "es-ES", "fr-FR"]\<close>
  and the aggregate's \<^verbatim>\<open>i18n\<close> is \<^verbatim>\<open>false\<close>.
\<close>

theorem i18n_shadow_counterexample:
  "supportedLocales (no_options\<lparr>languages := Some [lang ''de-DE''],
                                 customConfig := Some [(''i18n'', JBool False)]\<rparr>)
     = [''de-DE'', ''en-US'', ''es-ES'', ''fr-FR'']
   \<and> CONFIG (no_options\<lparr>languages := Some [lang ''de-DE''],
                          customConfig := Some [(''i18n'', JBool False)]\<rparr>) no_env ''i18n''
     = Some (VCustom (JBool False))"
  by (simp add: CONFIG_def spread_def map_add_def supportedLocales_def new_Set_def
        set_add_def DEFAULT_LANGUAGES_def example_defs lang_def)

text \<open>
  Claim C5, amended. For every pair of input language sequences the computed
  \<^verbatim>\<open>supportedLocales\<close> is the deduplicated union of the dashboard language codes and
  the marketing language codes: the dashboard codes first, in their given order, then the
  marketing codes that are not dashboard codes, each code once; an omitted sequence
  counts as the built-in languages. This list is the \<^verbatim>\<open>supportedLocales\<close> of the
  aggregate's \<^verbatim>\<open>i18n\<close> block when the custom configuration has no entry named
  \<^verbatim>\<open>i18n\<close>.
\<close>

theorem supportedLocales_ordered_union:
  assumes "dashboard =
      map Language.code (case languages opts of Some ls \<Rightarrow> ls | None \<Rightarrow> DEFAULT_LANGUAGES)"
    and "marketing =
      map Language.code
        (case marketingLanguages opts of Some ls \<Rightarrow> ls | None \<Rightarrow> DEFAULT_LANGUAGES)"
  shows "supportedLocales opts =
       first_occurrences dashboard
       @ filter (\<lambda>c. c \<notin> set dashboard) (first_occurrences marketing)
    \<and> distinct (supportedLocales opts)
    \<and> set (supportedLocales opts) = set dashboard \<union> set marketing
    \<and> (Option.bind (customConfig opts) (\<lambda>c. map_of c ''i18n'') = None \<longrightarrow>
         CONFIG opts env ''i18n'' =
           Some (VI18n \<lparr>enabled = True,
                         I18n.supportedLocales =
                           first_occurrences dashboard
                           @ filter (\<lambda>c. c \<notin> set dashboard) (first_occurrences marketing)\<rparr>))"
proof -
  have s: "supportedLocales opts = new_Set (dashboard @ marketing)"
    by (simp add: assms supportedLocales_def languages_of_def marketingLanguages_of_def)
  then have eq: "supportedLocales opts =
       first_occurrences dashboard
       @ filter (\<lambda>c. c \<notin> set dashboard) (first_occurrences marketing)"
    by (simp only: new_Set_append)
  have d: "distinct (supportedLocales opts)"
    unfolding s new_Set_first_occurrences by (rule distinct_first_occurrences)
  have u: "set (supportedLocales opts) = set dashboard \<union> set marketing"
    unfolding s new_Set_first_occurrences by (simp add: set_first_occurrences)
  have c: "Option.bind (customConfig opts) (\<lambda>c. map_of c ''i18n'') = None \<longrightarrow>
         CONFIG opts env ''i18n'' =
           Some (VI18n \<lparr>enabled = True, I18n.supportedLocales = supportedLocales opts\<rparr>)"
    by (simp add: CONFIG_not_custom)
  from eq d u c [unfolded eq] show ?thesis by (intro conjI)
qed

text \<open>
  Dashboard languages \<^verbatim>\<open>["de-DE", "en-US", "de-DE"]\<close> with marketing languages
  \<^verbatim>\<open>["en-US", "it-IT", "en-US"]\<close> give \<^verbatim>\<open>["de-DE", "en-US", "it-IT"]\<close>, in the
  aggregate too; dashboard \<^verbatim>\<open>["en-US", "es-ES"]\<close> with marketing
  \<^verbatim>\<open>["es-ES", "fr-FR"]\<close> give \<^verbatim>\<open>["en-US", "es-ES", "fr-FR"]\<close>.
\<close>

theorem supportedLocales_ordered_union_witness:
  "supportedLocales
     (no_options\<lparr>languages := Some [lang ''de-DE'', lang ''en-US'', lang ''de-DE''],
                  marketingLanguages := Some [lang ''en-US'', lang ''it-IT'', lang ''en-US'']\<rparr>)
     = [''de-DE'', ''en-US'', ''it-IT'']
   \<and> CONFIG
       (no_options\<lparr>languages := Some [lang ''de-DE'', lang ''en-US'', lang ''de-DE''],
                    marketingLanguages := Some [lang ''en-US'', lang ''it-IT'', lang ''en-US'']\<rparr>)
       no_env ''i18n''
     = Some (VI18n \<lparr>enabled = True,
                    I18n.supportedLocales = [''de-DE'', ''en-US'', ''it-IT'']\<rparr>)
   \<and> supportedLocales
       (no_options\<lparr>languages := Some [lang ''en-US'', lang ''es-ES''],
                    marketingLanguages := Some [lang ''es-ES'', lang ''fr-FR'']\<rparr>)
     = [''en-US'', ''es-ES'', ''fr-FR'']"
proof -
  let ?o = "no_options\<lparr>languages := Some [lang ''de-DE'', lang ''en-US'', lang ''de-DE''],
                  marketingLanguages := Some [lang ''en-US'', lang ''it-IT'', lang ''en-US'']\<rparr>"
  let ?s = "no_options\<lparr>languages := Some [lang ''en-US'', lang ''es-ES''],
                    marketingLanguages := Some [lang ''es-ES'', lang ''fr-FR'']\<rparr>"
  have d: "[''de-DE'', ''en-US'', ''de-DE''] =
      map Language.code (case languages ?o of Some ls \<Rightarrow> ls | None \<Rightarrow> DEFAULT_LANGUAGES)"
    by (simp add: no_options_def lang_def)
  have m: "[''en-US'', ''it-IT'', ''en-US''] =
      map Language.code
        (case marketingLanguages ?o of Some ls \<Rightarrow> ls | None \<Rightarrow> DEFAULT_LANGUAGES)"
    by (simp add: no_options_def lang_def)
  have n: "Option.bind (customConfig ?o) (\<lambda>c. map_of c ''i18n'') = None"
    by (simp add: no_options_def)
  have v: "first_occurrences [''de-DE'', ''en-US'', ''de-DE'']
       @ filter (\<lambda>c. c \<notin> set [''de-DE'', ''en-US'', ''de-DE''])
           (first_occurrences [''en-US'', ''it-IT'', ''en-US''])
     = [''de-DE'', ''en-US'', ''it-IT'']"
    by simp
  note p = supportedLocales_ordered_union [OF d m, of no_env]
  have a: "supportedLocales ?o = [''de-DE'', ''en-US'', ''it-IT'']"
    using p [THEN conjunct1] by (simp only: v)
  from p [THEN conjunct2, THEN conjunct2, THEN conjunct2] n
  have "CONFIG ?o no_env ''i18n'' =
           Some (VI18n \<lparr>enabled = True,
                         I18n.supportedLocales =
                           first_occurrences [''de-DE'', ''en-US'', ''de-DE'']
       @ filter (\<lambda>c. c \<notin> set [''de-DE'', ''en-US'', ''de-DE''])
           (first_occurrences [''en-US'', ''it-IT'', ''en-US''])\<rparr>)"
    by (rule mp)
  then have b: "CONFIG ?o no_env ''i18n'' =
      Some (VI18n \<lparr>enabled = True, I18n.supportedLocales = [''de-DE'', ''en-US'', ''it-IT'']\<rparr>)"
    by (simp only: v)
  have d': "[''en-US'', ''es-ES''] =
      map Language.code (case languages ?s of Some ls \<Rightarrow> ls | None \<Rightarrow> DEFAULT_LANGUAGES)"
    by (simp add: no_options_def lang_def)
  have m': "[''es-ES'', ''fr-FR''] =
      map Language.code
        (case marketingLanguages ?s of Some ls \<Rightarrow> ls | None \<Rightarrow> DEFAULT_LANGUAGES)"
    by (simp add: no_options_def lang_def)
  have c: "supportedLocales ?s = [''en-US'', ''es-ES'', ''fr-FR'']"
    using supportedLocales_ordered_union [OF d' m', of no_env, THEN conjunct1] by simp
  from a b c show ?thesis by (intro conjI)
qed

section \<open>Custom configuration\<close>





section \<open>Splitting and joining\<close>

lemma startsWith_Cons: "startsWith (x # xs) (c # cs) = (x = c \<and> startsWith xs cs)"
  by (simp add: startsWith_def)

lemma startsWith_append_same: "startsWith (p @ s) p"
  by (simp add: startsWith_def)

lemma startsWith_decompose: "startsWith s p \<Longrightarrow> s = p @ drop (length p) s"
  unfolding startsWith_def by (metis append_take_drop_id)

lemma split_from_nonempty: "split_from sep cur s \<noteq> []"
  by (induction sep cur s rule: split_from.induct) auto

lemma split_from_no_sep:
  "c \<notin> set r \<Longrightarrow> split_from (c # cs) cur r = [cur @ r]"
  by (induction r arbitrary: cur) (auto simp: startsWith_Cons)

lemma split_from_sep:
  "c \<notin> set r \<Longrightarrow>
   split_from (c # cs) cur (r @ (c # cs) @ rest) = (cur @ r) # split_from (c # cs) [] rest"
proof (induction r arbitrary: cur)
  case Nil
  have "startsWith ((c # cs) @ rest) (c # cs)" by (rule startsWith_append_same)
  then show ?case by simp
next
  case (Cons x r)
  then show ?case by (auto simp: startsWith_Cons)
qed

lemma split_from_join:
  "rows \<noteq> [] \<Longrightarrow> \<forall>r\<in>set rows. c \<notin> set r \<Longrightarrow>
   split_from (c # cs) [] (join (c # cs) rows) = rows"
proof (induction "c # cs" rows rule: join.induct)
  case 1
  then show ?case by simp
next
  case (2 x)
  then show ?case by (simp add: split_from_no_sep)
next
  case (3 x y ys)
  then show ?case using split_from_sep [of c x cs "[]" "join (c # cs) (y # ys)"] by simp
qed

text \<open>
  Splitting undoes joining, when the pieces are free of the first character of the
  separator.
\<close>

lemma split_join:
  "rows \<noteq> [] \<Longrightarrow> \<forall>r\<in>set rows. c \<notin> set r \<Longrightarrow> split (join (c # cs) rows) (c # cs) = rows"
  by (simp add: split_def split_from_join)

lemma hd_split_from_char:
  "hd (split_from [c] cur s) = cur @ takeWhile (\<lambda>x. x \<noteq> c) s"
  by (induction s arbitrary: cur) (auto simp: startsWith_def)

lemma takeWhile_upto:
  "c \<notin> set n \<Longrightarrow> takeWhile (\<lambda>x. x \<noteq> c) (n @ c # v) = n"
  by (induction n) auto

lemma dropWhile_none: "\<forall>x\<in>set xs. \<not> P x \<Longrightarrow> dropWhile P xs = xs"
  by (cases xs) auto

section \<open>Translation lookup: the traversal\<close>














text \<open>
  The value does not depend on the runtime: \<^verbatim>\<open>length\<close> is an own property of the
  string.
\<close>

lemma trailing_segment_any_runtime:
  "t inh (no_options\<lparr>translations' := Some [(''en-US'', JObj [(''a'', JStr ''X'')])]\<rparr>)
     no_env ''a.length'' (Some ''en-US'') = Inr (JNum 1)"
  by (simp add: t_def eval_defs)



section \<open>Locale cookie helpers: reading and writing\<close>

text \<open>
  The entry of the header that \<^verbatim>\<open>getLocaleCookie\<close> picks, split on \<^verbatim>\<open>=\<close>: the
  element at index 1 is the text after \<^verbatim>\<open>NEXT_LOCALE=\<close> up to the next \<^verbatim>\<open>=\<close>.
\<close>

lemma split_locale_row:
  assumes "startsWith row ''NEXT_LOCALE=''"
  shows "at_index (split row ''='') 1
         = JStr (takeWhile (\<lambda>x. x \<noteq> CHR ''='') (drop (length ''NEXT_LOCALE='') row))"
proof -
  define rest where "rest = drop (length ''NEXT_LOCALE='') row"
  from startsWith_decompose [OF assms] have "row = ''NEXT_LOCALE='' @ rest"
    unfolding rest_def .
  then have row: "row = ''NEXT_LOCALE'' @ ''='' @ rest"
    by simp
  have "split_from ''='' [] (''NEXT_LOCALE'' @ ''='' @ rest)
        = ([] @ ''NEXT_LOCALE'') # split_from ''='' [] rest"
    by (rule split_from_sep) simp
  then have "split row ''='' = ''NEXT_LOCALE'' # split_from ''='' [] rest"
    by (simp add: split_def row)
  moreover have "split_from ''='' [] rest \<noteq> []" by (rule split_from_nonempty)
  ultimately show ?thesis
    using hd_split_from_char [of "CHR ''=''" "[]" rest] unfolding rest_def [symmetric]
    by (cases "split_from ''='' [] rest") (auto simp: at_index_def)
qed

lemma getLocaleCookie_header:
  "getLocaleCookie (Some doc) =
     Inr (case find (\<lambda>row. startsWith row ''NEXT_LOCALE='') (split (cookie_read doc) ''; '') of
            None \<Rightarrow> JNull
          | Some row \<Rightarrow>
              JStr (takeWhile (\<lambda>x. x \<noteq> CHR ''='') (drop (length ''NEXT_LOCALE='') row)))"
proof (cases "find (\<lambda>row. startsWith row ''NEXT_LOCALE='') (split (cookie_read doc) ''; '')")
  case None
  then show ?thesis by (simp add: getLocaleCookie_def the_document_def)
next
  case (Some row)
  then have sw: "startsWith row ''NEXT_LOCALE=''"
    by (auto simp: find_Some_iff)
  then have "row \<noteq> []" by (auto simp: startsWith_def)
  with Some split_locale_row [OF sw] show ?thesis
    by (simp add: getLocaleCookie_def the_document_def Let_def)
qed

lemma startsWith_entry:
  assumes "CHR ''='' \<notin> set n"
  shows "startsWith (n @ ''='' @ v) ''NEXT_LOCALE='' = (n = ''NEXT_LOCALE'')"
proof
  assume "startsWith (n @ ''='' @ v) ''NEXT_LOCALE=''"
  from startsWith_decompose [OF this]
  have "n @ ''='' @ v = ''NEXT_LOCALE'' @ ''='' @ drop (length ''NEXT_LOCALE='') (n @ ''='' @ v)"
    by simp
  then have "takeWhile (\<lambda>x. x \<noteq> CHR ''='') (n @ ''='' @ v)
      = takeWhile (\<lambda>x. x \<noteq> CHR ''='')
          (''NEXT_LOCALE'' @ ''='' @ drop (length ''NEXT_LOCALE='') (n @ ''='' @ v))"
    by simp
  moreover have "takeWhile (\<lambda>x. x \<noteq> CHR ''='') (n @ ''='' @ v) = n"
    using assms by (simp add: takeWhile_upto)
  moreover have "takeWhile (\<lambda>x. x \<noteq> CHR ''='')
          (''NEXT_LOCALE'' @ ''='' @ drop (length ''NEXT_LOCALE='') (n @ ''='' @ v))
        = ''NEXT_LOCALE''"
    by simp
  ultimately show "n = ''NEXT_LOCALE''" by simp
next
  assume "n = ''NEXT_LOCALE''"
  then show "startsWith (n @ ''='' @ v) ''NEXT_LOCALE=''"
    by (simp add: startsWith_def)
qed

lemma startsWith_cookie_entry:
  "cookie_ok c \<Longrightarrow>
   startsWith (cookie_entry c) ''NEXT_LOCALE='' = (cookie_name c = ''NEXT_LOCALE'')"
  unfolding cookie_entry_def cookie_ok_def by (intro startsWith_entry) simp

lemma find_cookie_rows:
  "store_ok doc \<Longrightarrow>
   find (\<lambda>row. startsWith row ''NEXT_LOCALE='') (map cookie_entry doc)
   = map_option cookie_entry (find (\<lambda>c. cookie_name c = ''NEXT_LOCALE'') doc)"
  by (induction doc) (simp_all add: store_ok_def startsWith_cookie_entry)

lemma split_cookie_read:
  assumes "store_ok doc" and "doc \<noteq> []"
  shows "split (cookie_read doc) ''; '' = map cookie_entry doc"
  unfolding cookie_read_def
proof (rule split_join)
  show "map cookie_entry doc \<noteq> []" using assms(2) by simp
  show "\<forall>r\<in>set (map cookie_entry doc). CHR '';'' \<notin> set r"
    using assms(1) by (auto simp: store_ok_def cookie_ok_def cookie_entry_def list_all_iff)
qed

text \<open>
  On a well-formed store, \<^verbatim>\<open>getLocaleCookie\<close> finds the first cookie named
  \<^verbatim>\<open>NEXT_LOCALE\<close> and returns its value up to the first \<^verbatim>\<open>=\<close>.
\<close>

lemma getLocaleCookie_store:
  assumes "store_ok doc"
  shows "getLocaleCookie (Some doc) =
     Inr (case find (\<lambda>c. cookie_name c = ''NEXT_LOCALE'') doc of
            None \<Rightarrow> JNull
          | Some c \<Rightarrow> JStr (takeWhile (\<lambda>x. x \<noteq> CHR ''='') (cookie_value c)))"
proof (cases "doc = []")
  case True
  then show ?thesis
    by (simp add: getLocaleCookie_header cookie_read_def split_def startsWith_def)
next
  case False
  show ?thesis
  proof (cases "find (\<lambda>c. cookie_name c = ''NEXT_LOCALE'') doc")
    case None
    then show ?thesis
      unfolding getLocaleCookie_header split_cookie_read [OF assms False]
        find_cookie_rows [OF assms]
      by simp
  next
    case (Some c)
    then have "cookie_name c = ''NEXT_LOCALE''" by (auto simp: find_Some_iff)
    then have "drop (length ''NEXT_LOCALE='') (cookie_entry c) = cookie_value c"
      by (simp add: cookie_entry_def)
    with Some show ?thesis
      unfolding getLocaleCookie_header split_cookie_read [OF assms False]
        find_cookie_rows [OF assms]
      by simp
  qed
qed

lemma url_safe_char_facts:
  "url_safe_char c \<Longrightarrow> c \<noteq> CHR '';'' \<and> c \<noteq> CHR ''='' \<and> \<not> is_space c"
  by (auto simp: url_safe_char_def is_space_def)

lemma url_safe_no_semicolon: "list_all url_safe_char s \<Longrightarrow> CHR '';'' \<notin> set s"
  using url_safe_char_facts by (auto simp: list_all_iff)

lemma url_safe_no_equals: "list_all url_safe_char s \<Longrightarrow> CHR ''='' \<notin> set s"
  using url_safe_char_facts by (auto simp: list_all_iff)

lemma trim_no_space: "\<forall>c\<in>set s. \<not> is_space c \<Longrightarrow> trim s = s"
  by (simp add: trim_def dropWhile_none)

lemma url_safe_trim: "list_all url_safe_char s \<Longrightarrow> trim s = s"
  using url_safe_char_facts by (intro trim_no_space) (auto simp: list_all_iff)

text \<open>The cookie string that \<^verbatim>\<open>setLocaleCookie\<close> assigns, as the store reads it.\<close>

lemma parse_locale_cookie_string:
  assumes "list_all url_safe_char locale"
  shows "parse_cookie_string
           (''NEXT_LOCALE='' @ locale @ ''; path=/; max-age=31536000; SameSite=Lax'')
         = Some (locale_cookie locale)"
proof -
  have semi: "CHR '';'' \<notin> set (''NEXT_LOCALE='' @ locale)"
    using url_safe_no_semicolon [OF assms] by simp
  have "split_from '';'' []
          ((''NEXT_LOCALE='' @ locale) @ '';'' @ '' path=/; max-age=31536000; SameSite=Lax'')
        = ([] @ ''NEXT_LOCALE='' @ locale)
          # split_from '';'' [] '' path=/; max-age=31536000; SameSite=Lax''"
    using semi by (rule split_from_sep)
  moreover have "split_from '';'' [] '' path=/; max-age=31536000; SameSite=Lax''
        = ['' path=/'', '' max-age=31536000'', '' SameSite=Lax'']"
    by (simp add: startsWith_def)
  ultimately have pieces:
    "split (''NEXT_LOCALE='' @ locale @ ''; path=/; max-age=31536000; SameSite=Lax'') '';''
     = (''NEXT_LOCALE='' @ locale) # ['' path=/'', '' max-age=31536000'', '' SameSite=Lax'']"
    by (simp add: split_def)
  have n: "takeWhile (\<lambda>c. c \<noteq> CHR ''='') (''NEXT_LOCALE='' @ locale) = ''NEXT_LOCALE''"
    by simp
  have v: "tl (dropWhile (\<lambda>c. c \<noteq> CHR ''='') (''NEXT_LOCALE='' @ locale)) = locale"
    by simp
  have tn: "trim ''NEXT_LOCALE'' = ''NEXT_LOCALE''"
    by (simp add: trim_def is_space_def)
  have attrs: "map trim ['' path=/'', '' max-age=31536000'', '' SameSite=Lax'']
       = [''path=/'', ''max-age=31536000'', ''SameSite=Lax'']"
    by (simp add: trim_def is_space_def)
  have eq: "CHR ''='' \<in> set (''NEXT_LOCALE='' @ locale)" by simp
  show ?thesis
    unfolding parse_cookie_string_def pieces list.case Let_def n v tn attrs
      url_safe_trim [OF assms] locale_cookie_def
    using eq by simp
qed

lemma store_cookie_ok: "store_ok doc \<Longrightarrow> cookie_ok c \<Longrightarrow> store_ok (store_cookie c doc)"
  by (induction doc) (auto simp: store_ok_def)

lemma find_store_cookie:
  "find (\<lambda>d. cookie_name d = cookie_name c) (store_cookie c doc) = Some c"
  by (induction doc) auto

lemma store_cookie_member: "c \<in> set (store_cookie c doc)"
  by (induction doc) auto

lemma locale_cookie_ok: "list_all url_safe_char locale \<Longrightarrow> cookie_ok (locale_cookie locale)"
  by (simp add: cookie_ok_def locale_cookie_def url_safe_no_semicolon)

text \<open>
  Claim C7. For a locale that is a plain URL-safe token, \<^verbatim>\<open>setLocaleCookie(locale)\<close>
  followed by \<^verbatim>\<open>getLocaleCookie()\<close> on the same cookie store returns the locale. The
  write stores a cookie named \<^verbatim>\<open>NEXT_LOCALE\<close> with the attributes \<^verbatim>\<open>path=/\<close>,
  \<^verbatim>\<open>max-age=31536000\<close> and \<^verbatim>\<open>SameSite=Lax\<close>; the read splits the header on
  \<^verbatim>\<open>"; "\<close> and takes the first \<^verbatim>\<open>NEXT_LOCALE\<close> entry.
\<close>

theorem locale_cookie_round_trip:
  assumes "store_ok doc" and "url_safe_token locale"
  shows "setLocaleCookie (Some doc) locale = Inr (Some (store_cookie (locale_cookie locale) doc))
    \<and> locale_cookie locale \<in> set (store_cookie (locale_cookie locale) doc)
    \<and> getLocaleCookie (Some (store_cookie (locale_cookie locale) doc)) = Inr (JStr locale)
    \<and> getLocaleCookie (Some doc) =
        Inr (case find (\<lambda>c. cookie_name c = ''NEXT_LOCALE'') doc of
               None \<Rightarrow> JNull
             | Some c \<Rightarrow> JStr (takeWhile (\<lambda>x. x \<noteq> CHR ''='') (cookie_value c)))"
proof -
  from assms(2) have safe: "list_all url_safe_char locale"
    by (simp add: url_safe_token_def)
  have "cookie_assign doc
          (''NEXT_LOCALE='' @ locale @ ''; path=/; max-age=31536000; SameSite=Lax'')
        = store_cookie (locale_cookie locale) doc"
    unfolding cookie_assign_def parse_locale_cookie_string [OF safe] by simp
  then have set: "setLocaleCookie (Some doc) locale
             = Inr (Some (store_cookie (locale_cookie locale) doc))"
    unfolding setLocaleCookie_def by (simp add: the_document_def)
  have ok: "store_ok (store_cookie (locale_cookie locale) doc)"
    using assms(1) locale_cookie_ok [OF safe] by (rule store_cookie_ok)
  have f: "find (\<lambda>d. cookie_name d = ''NEXT_LOCALE'') (store_cookie (locale_cookie locale) doc)
        = Some (locale_cookie locale)"
    using find_store_cookie [of "locale_cookie locale" doc] by (simp add: locale_cookie_def)
  have "takeWhile (\<lambda>x. x \<noteq> CHR ''='') (cookie_value (locale_cookie locale)) = locale"
    using url_safe_no_equals [OF safe] by (auto simp: locale_cookie_def takeWhile_eq_all_conv)
  then have get: "getLocaleCookie (Some (store_cookie (locale_cookie locale) doc))
        = Inr (JStr locale)"
    unfolding getLocaleCookie_store [OF ok] f by simp
  from set get store_cookie_member getLocaleCookie_store [OF assms(1)]
  show ?thesis by blast
qed

text \<open>
  On the store \<^verbatim>\<open>theme=dark\<close>, \<^verbatim>\<open>setLocaleCookie("fr-FR")\<close> adds the locale cookie and
  \<^verbatim>\<open>getLocaleCookie()\<close> then returns \<^verbatim>\<open>"fr-FR"\<close>.
\<close>

theorem locale_cookie_round_trip_witness:
  "store_ok [theme_cookie] \<and> url_safe_token ''fr-FR''
   \<and> setLocaleCookie (Some [theme_cookie]) ''fr-FR''
       = Inr (Some [theme_cookie, locale_cookie ''fr-FR''])
   \<and> getLocaleCookie (Some [theme_cookie, locale_cookie ''fr-FR'']) = Inr (JStr ''fr-FR'')"
proof -
  have h1: "store_ok [theme_cookie]"
    by (simp add: store_ok_def cookie_ok_def theme_cookie_def)
  have h2: "url_safe_token ''fr-FR''"
    by (simp add: url_safe_token_def url_safe_char_def)
  have s: "store_cookie (locale_cookie ''fr-FR'') [theme_cookie]
           = [theme_cookie, locale_cookie ''fr-FR'']"
    by (simp add: theme_cookie_def locale_cookie_def)
  from locale_cookie_round_trip [OF h1 h2] h1 h2 show ?thesis
    unfolding s by blast
qed

text \<open>
  Claim C8. With no ambient document, neither helper throws: \<^verbatim>\<open>getLocaleCookie()\<close>
  returns \<^verbatim>\<open>null\<close>, and \<^verbatim>\<open>setLocaleCookie(locale)\<close> returns without a write, for every
  locale.
\<close>

theorem no_document_no_throw:
  "getLocaleCookie None = Inr JNull \<and> setLocaleCookie None locale = Inr None"
  by (simp add: getLocaleCookie_def setLocaleCookie_def)

text \<open>The same for the locale \<^verbatim>\<open>"fr-FR"\<close>.\<close>

theorem no_document_no_throw_witness:
  "getLocaleCookie None = Inr JNull \<and> setLocaleCookie None ''fr-FR'' = Inr None"
  by (rule no_document_no_throw)

text \<open>
  Claim C10. \<^verbatim>\<open>getLocaleCookie()\<close> returns \<^verbatim>\<open>null\<close> exactly when the header has no
  entry that starts with \<^verbatim>\<open>NEXT_LOCALE=\<close>. When the first such entry is
  \<^verbatim>\<open>NEXT_LOCALE=\<close>, that is when the store has the cookie with an empty value, the
  result is the empty string and not \<^verbatim>\<open>null\<close>.
\<close>

theorem empty_locale_cookie:
  "(getLocaleCookie (Some doc) = Inr JNull
      \<longleftrightarrow> find (\<lambda>row. startsWith row ''NEXT_LOCALE='') (split (cookie_read doc) ''; '') = None)
   \<and> (find (\<lambda>row. startsWith row ''NEXT_LOCALE='') (split (cookie_read doc) ''; '')
        = Some ''NEXT_LOCALE='' \<longrightarrow> getLocaleCookie (Some doc) = Inr (JStr ''''))
   \<and> (store_ok doc \<longrightarrow>
        (\<forall>c. find (\<lambda>c. cookie_name c = ''NEXT_LOCALE'') doc = Some c \<and> cookie_value c = ''''
           \<longrightarrow> getLocaleCookie (Some doc) = Inr (JStr '''')))"
proof (intro conjI impI allI)
  show "(getLocaleCookie (Some doc) = Inr JNull)
      = (find (\<lambda>row. startsWith row ''NEXT_LOCALE='') (split (cookie_read doc) ''; '') = None)"
    by (simp add: getLocaleCookie_header split: option.splits)
next
  assume "find (\<lambda>row. startsWith row ''NEXT_LOCALE='') (split (cookie_read doc) ''; '')
          = Some ''NEXT_LOCALE=''"
  then show "getLocaleCookie (Some doc) = Inr (JStr '''')"
    by (simp add: getLocaleCookie_header)
next
  fix c
  assume "store_ok doc"
    and "find (\<lambda>c. cookie_name c = ''NEXT_LOCALE'') doc = Some c \<and> cookie_value c = ''''"
  then show "getLocaleCookie (Some doc) = Inr (JStr '''')"
    by (simp add: getLocaleCookie_store)
qed

text \<open>
  The store \<^verbatim>\<open>theme=dark; NEXT_LOCALE=\<close>: the header has the entry
  \<^verbatim>\<open>NEXT_LOCALE=\<close> and the result is the empty string.
\<close>

theorem empty_locale_cookie_witness:
  "cookie_read [theme_cookie,
       \<lparr>cookie_name = ''NEXT_LOCALE'', cookie_value = '''', attributes = []\<rparr>]
     = ''theme=dark; NEXT_LOCALE=''
   \<and> find (\<lambda>row. startsWith row ''NEXT_LOCALE='')
        (split (cookie_read [theme_cookie,
            \<lparr>cookie_name = ''NEXT_LOCALE'', cookie_value = '''', attributes = []\<rparr>]) ''; '')
       = Some ''NEXT_LOCALE=''
   \<and> getLocaleCookie (Some [theme_cookie,
        \<lparr>cookie_name = ''NEXT_LOCALE'', cookie_value = '''', attributes = []\<rparr>])
       = Inr (JStr '''')
   \<and> getLocaleCookie (Some [theme_cookie,
        \<lparr>cookie_name = ''NEXT_LOCALE'', cookie_value = '''', attributes = []\<rparr>])
       \<noteq> Inr JNull"
proof -
  let ?c = "\<lparr>cookie_name = ''NEXT_LOCALE'', cookie_value = '''', attributes = []\<rparr>"
  let ?doc = "[theme_cookie, ?c]"
  have h0: "cookie_read ?doc = ''theme=dark; NEXT_LOCALE=''"
    by (simp add: eval_defs theme_cookie_def)
  have h1: "find (\<lambda>row. startsWith row ''NEXT_LOCALE='') (split (cookie_read ?doc) ''; '')
            = Some ''NEXT_LOCALE=''"
    by (simp add: eval_defs theme_cookie_def)
  have h2: "store_ok ?doc"
    by (simp add: store_ok_def cookie_ok_def theme_cookie_def)
  have h3: "find (\<lambda>c. cookie_name c = ''NEXT_LOCALE'') ?doc = Some ?c \<and> cookie_value ?c = ''''"
    by (simp add: theme_cookie_def)
  from empty_locale_cookie [of ?doc] h1
  have r: "getLocaleCookie (Some ?doc) = Inr (JStr '''')" by blast
  from empty_locale_cookie [of ?doc] h2 h3
  have "getLocaleCookie (Some ?doc) = Inr (JStr '''')" by blast
  from r have "getLocaleCookie (Some ?doc) \<noteq> Inr JNull" by simp
  with h0 h1 r show ?thesis by blast
qed

end
